theory Spec2Isabelle
  imports Main "HOL-Library.Word"
begin

section \<open>Data model of the NFT page (src/pages/nfts/[address].tsx)\<close>

text \<open>
  Addresses arrive from the GraphQL layer as base58 strings and are wrapped with
  \<open>new PublicKey(...)\<close>; \<open>toBase58\<close> gives the string back. The snapshot's address
  fields are GraphQL \<open>PublicKey\<close> scalars, for which the constructor does not throw.
  Prices are big integers (naturals here) read with \<open>toNumber()\<close>, which throws
  when the value does not fit in 53 bits; bumps are naturals.
\<close>

datatype PublicKey = PublicKey (toBase58: string)

datatype Error = Error (message: string)

text \<open>
  \<open>price.toNumber()\<close> (lines 283, 489, 737): the big integer as a JavaScript number.
  It returns the value itself below \<open>2^53\<close> and throws from there on.
\<close>

definition toNumber :: "nat \<Rightarrow> Error + nat" where
  "toNumber n =
     (if n < 2 ^ 53 then Inr n else Inl (Error ''Number can only safely store up to 53 bits''))"

record AuctionHouse =
  address :: string
  treasuryMint :: string
  auctionHouseTreasury :: string
  authority :: string
  auctionHouseFeeAccount :: string

record Marketplace =
  auctionHouse :: AuctionHouse

record NftOwner =
  address :: string
  associatedTokenAccountAddress :: string

record NftCreator =
  address :: string

record Listing =
  address :: string
  auctionHouse :: string
  seller :: string
  price :: nat
  tokenSize :: nat
  tradeState :: string
  tradeStateBump :: nat

record Nft =
  mintAddress :: string
  owner :: NftOwner
  creators :: "NftCreator list"
  listings :: "Listing list"

record GetNftData =
  nft :: Nft

subsection \<open>Instructions and transactions (@solana/web3.js)\<close>

record AccountMeta =
  pubkey :: PublicKey
  isSigner :: bool
  isWritable :: bool

record TransactionInstruction =
  programId :: PublicKey
  keys :: "AccountMeta list"
  data :: "8 word list"

record Transaction =
  instructions :: "TransactionInstruction list"
  recentBlockhash :: "string option"
  feePayer :: "PublicKey option"
  signatures :: "string list"

text \<open>\<open>new Transaction()\<close> and \<open>txt.add(instruction)\<close>: \<open>add\<close> appends at the end.\<close>

definition newTransaction :: Transaction where
  "newTransaction = \<lparr>instructions = [], recentBlockhash = None, feePayer = None, signatures = []\<rparr>"

definition addInstruction :: "Transaction \<Rightarrow> TransactionInstruction \<Rightarrow> Transaction" where
  "addInstruction t i = t\<lparr>instructions := instructions t @ [i]\<rparr>"

subsection \<open>Account and argument objects handed to the instruction constructors\<close>

record PublicBuyInstructionAccounts =
  wallet :: PublicKey
  paymentAccount :: PublicKey
  transferAuthority :: PublicKey
  treasuryMint :: PublicKey
  tokenAccount :: PublicKey
  metadata :: PublicKey
  escrowPaymentAccount :: PublicKey
  authority :: PublicKey
  auctionHouse :: PublicKey
  auctionHouseFeeAccount :: PublicKey
  buyerTradeState :: PublicKey

record PublicBuyInstructionArgs =
  tradeStateBump :: nat
  escrowPaymentBump :: nat
  buyerPrice :: nat
  tokenSize :: nat

record ExecuteSaleInstructionAccounts =
  buyer :: PublicKey
  seller :: PublicKey
  tokenAccount :: PublicKey
  tokenMint :: PublicKey
  metadata :: PublicKey
  treasuryMint :: PublicKey
  escrowPaymentAccount :: PublicKey
  sellerPaymentReceiptAccount :: PublicKey
  buyerReceiptTokenAccount :: PublicKey
  authority :: PublicKey
  auctionHouse :: PublicKey
  auctionHouseFeeAccount :: PublicKey
  auctionHouseTreasury :: PublicKey
  buyerTradeState :: PublicKey
  sellerTradeState :: PublicKey
  freeTradeState :: PublicKey
  programAsSigner :: PublicKey

record ExecuteSaleInstructionArgs =
  escrowPaymentBump :: nat
  freeTradeStateBump :: nat
  programAsSignerBump :: nat
  buyerPrice :: nat
  tokenSize :: nat

record PrintBidReceiptInstructionAccounts =
  bookkeeper :: PublicKey
  receipt :: PublicKey
  instruction :: PublicKey

record PrintBidReceiptInstructionArgs =
  receiptBump :: nat

record PrintPurchaseReceiptInstructionAccounts =
  bookkeeper :: PublicKey
  purchaseReceipt :: PublicKey
  bidReceipt :: PublicKey
  listingReceipt :: PublicKey
  instruction :: PublicKey

record PrintPurchaseReceiptInstructionArgs =
  purchaseReceiptBump :: nat

record CancelInstructionAccounts =
  wallet :: PublicKey
  tokenAccount :: PublicKey
  tokenMint :: PublicKey
  authority :: PublicKey
  auctionHouse :: PublicKey
  auctionHouseFeeAccount :: PublicKey
  tradeState :: PublicKey

record CancelInstructionArgs =
  buyerPrice :: nat
  tokenSize :: nat

record CancelListingReceiptInstructionAccounts =
  receipt :: PublicKey
  instruction :: PublicKey

subsection \<open>The imported program libraries\<close>

text \<open>
  \<open>AuctionHouseProgram\<close>, \<open>MetadataProgram\<close> and the web3 constants are npm dependencies of
  the page, so they are parameters of the model: the address finders return an
  (address, bump) pair, the instruction constructors return a \<open>TransactionInstruction\<close>,
  \<open>serialize\<close> is the method of the signed transaction and may throw.
\<close>

record Sdk =
  PUBKEY :: PublicKey
  SYSVAR_INSTRUCTIONS_PUBKEY :: PublicKey
  findMetadataAccount :: "PublicKey \<Rightarrow> PublicKey \<times> nat"
  findEscrowPaymentAccountAddress :: "PublicKey \<Rightarrow> PublicKey \<Rightarrow> PublicKey \<times> nat"
  findPublicBidTradeStateAddress ::
    "PublicKey \<Rightarrow> PublicKey \<Rightarrow> PublicKey \<Rightarrow> PublicKey \<Rightarrow> nat \<Rightarrow> nat \<Rightarrow> PublicKey \<times> nat"
  findTradeStateAddress ::
    "PublicKey \<Rightarrow> PublicKey \<Rightarrow> PublicKey \<Rightarrow> PublicKey \<Rightarrow> PublicKey \<Rightarrow> nat \<Rightarrow> nat
      \<Rightarrow> PublicKey \<times> nat"
  findAuctionHouseProgramAsSignerAddress :: "PublicKey \<times> nat"
  findAssociatedTokenAccountAddress :: "PublicKey \<Rightarrow> PublicKey \<Rightarrow> PublicKey \<times> nat"
  findBidReceiptAddress :: "PublicKey \<Rightarrow> PublicKey \<times> nat"
  findPurchaseReceiptAddress :: "PublicKey \<Rightarrow> PublicKey \<Rightarrow> PublicKey \<times> nat"
  createPublicBuyInstruction ::
    "PublicBuyInstructionAccounts \<Rightarrow> PublicBuyInstructionArgs \<Rightarrow> TransactionInstruction"
  createExecuteSaleInstruction ::
    "ExecuteSaleInstructionAccounts \<Rightarrow> ExecuteSaleInstructionArgs \<Rightarrow> TransactionInstruction"
  createCancelInstruction ::
    "CancelInstructionAccounts \<Rightarrow> CancelInstructionArgs \<Rightarrow> TransactionInstruction"
  createPrintBidReceiptInstruction ::
    "PrintBidReceiptInstructionAccounts \<Rightarrow> PrintBidReceiptInstructionArgs
      \<Rightarrow> TransactionInstruction"
  createCancelListingReceiptInstruction ::
    "CancelListingReceiptInstructionAccounts \<Rightarrow> TransactionInstruction"
  createPrintPurchaseReceiptInstruction ::
    "PrintPurchaseReceiptInstructionAccounts \<Rightarrow> PrintPurchaseReceiptInstructionArgs
      \<Rightarrow> TransactionInstruction"
  serialize :: "Transaction \<Rightarrow> Error + 8 word list"

subsection \<open>The component's closure: wallet, connection, props and query result\<close>

text \<open>
  Each awaited collaborator call either resolves (\<open>Inr\<close>) or rejects (\<open>Inl\<close>). \<open>publicKey\<close>
  and \<open>signTransaction\<close> are absent until a wallet is connected; \<open>data\<close> is absent
  until the query has loaded.
\<close>

record Connection =
  getRecentBlockhash :: "Error + string"
  sendRawTransaction :: "8 word list \<Rightarrow> Error + string"
  confirmTransaction :: "string \<Rightarrow> string \<Rightarrow> Error + unit"

record NftShow =
  publicKey :: "PublicKey option"
  signTransaction :: "(Transaction \<Rightarrow> Error + Transaction) option"
  connection :: Connection
  marketplace :: Marketplace
  data :: "GetNftData option"
  refetch :: "Error + unit"

text \<open>
  What an invocation does to the outside, in order: the calls it makes to the login hook,
  the libraries, the wallet, the network, the query and the toast notifier. \<open>Rejected\<close>
  ends a run whose exception no handler catches.
\<close>

datatype Effect =
    Login
  | FindMetadataAccount PublicKey
  | FindEscrowPaymentAccountAddress PublicKey PublicKey
  | FindPublicBidTradeStateAddress PublicKey PublicKey PublicKey PublicKey nat nat
  | FindTradeStateAddress PublicKey PublicKey PublicKey PublicKey PublicKey nat nat
  | FindAuctionHouseProgramAsSignerAddress
  | FindAssociatedTokenAccountAddress PublicKey PublicKey
  | FindBidReceiptAddress PublicKey
  | FindPurchaseReceiptAddress PublicKey PublicKey
  | GetRecentBlockhash
  | SignTransaction Transaction
  | Toast string
  | ToastSuccess string
  | ToastError string
  | SendRawTransaction "8 word list"
  | ConfirmTransaction string string
  | Refetch
  | Rejected Error

text \<open>
  The state an invocation leaves behind: the calls made, and the local transaction
  variable (absent when the function returned before \<open>new Transaction()\<close>).
\<close>

record Run =
  effects :: "Effect list"
  txn :: "Transaction option"

section \<open>Page-level values (lines 240-245)\<close>

text \<open>
  \<open>isOwner = equals(data?.nft.owner.address, publicKey?.toBase58()) || null\<close>: Ramda's
  \<open>equals\<close> on two possibly undefined strings (\<open>None\<close> is \<open>undefined\<close>); \<open>false\<close>
  and \<open>null\<close> are both falsy.
\<close>

definition isOwner :: "NftShow \<Rightarrow> bool" where
  "isOwner p =
     (map_option (\<lambda>d. NftOwner.address (owner (nft d))) (NftShow.data p)
        = map_option toBase58 (publicKey p))"

text \<open>
  \<open>listing = find(pipe(pickAuctionHouse, isMarketplaceAuctionHouse))(data?.nft.listings || [])\<close>:
  the first listing whose auction house is the marketplace's.
\<close>

definition listing :: "NftShow \<Rightarrow> Listing option" where
  "listing p =
     List.find
       (\<lambda>l. AuctionHouse.address (Marketplace.auctionHouse (marketplace p)) = Listing.auctionHouse l)
       (case NftShow.data p of None \<Rightarrow> [] | Some d \<Rightarrow> listings (nft d))"

section \<open>Locals of buyNftTransaction (lines 269-415)\<close>

subsection \<open>Keys parsed from the snapshot (lines 269-286, 477-489)\<close>

definition auctionHouse :: "Marketplace \<Rightarrow> PublicKey" where
  "auctionHouse m = PublicKey (AuctionHouse.address (Marketplace.auctionHouse m))"

definition authority :: "Marketplace \<Rightarrow> PublicKey" where
  "authority m = PublicKey (AuctionHouse.authority (Marketplace.auctionHouse m))"

definition auctionHouseFeeAccount :: "Marketplace \<Rightarrow> PublicKey" where
  "auctionHouseFeeAccount m =
     PublicKey (AuctionHouse.auctionHouseFeeAccount (Marketplace.auctionHouse m))"

definition treasuryMint :: "Marketplace \<Rightarrow> PublicKey" where
  "treasuryMint m = PublicKey (AuctionHouse.treasuryMint (Marketplace.auctionHouse m))"

definition seller :: "Listing \<Rightarrow> PublicKey" where
  "seller l = PublicKey (Listing.seller l)"

definition tokenMint :: "GetNftData \<Rightarrow> PublicKey" where
  "tokenMint d = PublicKey (mintAddress (nft d))"

definition auctionHouseTreasury :: "Marketplace \<Rightarrow> PublicKey" where
  "auctionHouseTreasury m =
     PublicKey (AuctionHouse.auctionHouseTreasury (Marketplace.auctionHouse m))"

definition listingReceipt :: "Listing \<Rightarrow> PublicKey" where
  "listingReceipt l = PublicKey (Listing.address l)"

definition sellerPaymentReceiptAccount :: "Listing \<Rightarrow> PublicKey" where
  "sellerPaymentReceiptAccount l = PublicKey (Listing.seller l)"

definition sellerTradeState :: "Listing \<Rightarrow> PublicKey" where
  "sellerTradeState l = PublicKey (Listing.tradeState l)"

text \<open>
  \<open>buyerPrice = listing.price.toNumber()\<close>: the number the conversion returns, which is
  the price itself. The handlers below stop where the conversion throws, so the locals
  that use \<open>buyerPrice\<close> are only reached with a price that fits.
\<close>

definition buyerPrice :: "Listing \<Rightarrow> nat" where
  "buyerPrice l = Listing.price l"

definition tokenAccount :: "GetNftData \<Rightarrow> PublicKey" where
  "tokenAccount d = PublicKey (associatedTokenAccountAddress (owner (nft d)))"

subsection \<open>Derived addresses and bumps (lines 288-329)\<close>

definition metadata :: "Sdk \<Rightarrow> GetNftData \<Rightarrow> PublicKey" where
  "metadata sdk d = fst (findMetadataAccount sdk (tokenMint d))"

definition escrowPaymentAccount :: "Sdk \<Rightarrow> PublicKey \<Rightarrow> Marketplace \<Rightarrow> PublicKey" where
  "escrowPaymentAccount sdk pk m =
     fst (findEscrowPaymentAccountAddress sdk (auctionHouse m) pk)"

definition escrowPaymentBump :: "Sdk \<Rightarrow> PublicKey \<Rightarrow> Marketplace \<Rightarrow> nat" where
  "escrowPaymentBump sdk pk m =
     snd (findEscrowPaymentAccountAddress sdk (auctionHouse m) pk)"

definition buyerTradeState ::
  "Sdk \<Rightarrow> PublicKey \<Rightarrow> Marketplace \<Rightarrow> Listing \<Rightarrow> GetNftData \<Rightarrow> PublicKey" where
  "buyerTradeState sdk pk m l d =
     fst (findPublicBidTradeStateAddress sdk pk (auctionHouse m) (treasuryMint m)
            (tokenMint d) (buyerPrice l) 1)"

definition tradeStateBump ::
  "Sdk \<Rightarrow> PublicKey \<Rightarrow> Marketplace \<Rightarrow> Listing \<Rightarrow> GetNftData \<Rightarrow> nat" where
  "tradeStateBump sdk pk m l d =
     snd (findPublicBidTradeStateAddress sdk pk (auctionHouse m) (treasuryMint m)
            (tokenMint d) (buyerPrice l) 1)"

definition freeTradeState :: "Sdk \<Rightarrow> Marketplace \<Rightarrow> Listing \<Rightarrow> GetNftData \<Rightarrow> PublicKey" where
  "freeTradeState sdk m l d =
     fst (findTradeStateAddress sdk (seller l) (auctionHouse m) (tokenAccount d) (treasuryMint m)
            (tokenMint d) 0 1)"

definition freeTradeStateBump :: "Sdk \<Rightarrow> Marketplace \<Rightarrow> Listing \<Rightarrow> GetNftData \<Rightarrow> nat" where
  "freeTradeStateBump sdk m l d =
     snd (findTradeStateAddress sdk (seller l) (auctionHouse m) (tokenAccount d) (treasuryMint m)
            (tokenMint d) 0 1)"

definition programAsSigner :: "Sdk \<Rightarrow> PublicKey" where
  "programAsSigner sdk = fst (findAuctionHouseProgramAsSignerAddress sdk)"

definition programAsSignerBump :: "Sdk \<Rightarrow> nat" where
  "programAsSignerBump sdk = snd (findAuctionHouseProgramAsSignerAddress sdk)"

definition buyerReceiptTokenAccount :: "Sdk \<Rightarrow> PublicKey \<Rightarrow> GetNftData \<Rightarrow> PublicKey" where
  "buyerReceiptTokenAccount sdk pk d =
     fst (findAssociatedTokenAccountAddress sdk (tokenMint d) pk)"

definition bidReceipt ::
  "Sdk \<Rightarrow> PublicKey \<Rightarrow> Marketplace \<Rightarrow> Listing \<Rightarrow> GetNftData \<Rightarrow> PublicKey" where
  "bidReceipt sdk pk m l d =
     fst (findBidReceiptAddress sdk (buyerTradeState sdk pk m l d))"

definition bidReceiptBump ::
  "Sdk \<Rightarrow> PublicKey \<Rightarrow> Marketplace \<Rightarrow> Listing \<Rightarrow> GetNftData \<Rightarrow> nat" where
  "bidReceiptBump sdk pk m l d =
     snd (findBidReceiptAddress sdk (buyerTradeState sdk pk m l d))"

definition purchaseReceipt ::
  "Sdk \<Rightarrow> PublicKey \<Rightarrow> Marketplace \<Rightarrow> Listing \<Rightarrow> GetNftData \<Rightarrow> PublicKey" where
  "purchaseReceipt sdk pk m l d =
     fst (findPurchaseReceiptAddress sdk (sellerTradeState l)
            (buyerTradeState sdk pk m l d))"

definition purchaseReceiptBump ::
  "Sdk \<Rightarrow> PublicKey \<Rightarrow> Marketplace \<Rightarrow> Listing \<Rightarrow> GetNftData \<Rightarrow> nat" where
  "purchaseReceiptBump sdk pk m l d =
     snd (findPurchaseReceiptAddress sdk (sellerTradeState l)
            (buyerTradeState sdk pk m l d))"

text \<open>The library calls of lines 288-329, in the order they are awaited.\<close>

definition buyDerivations ::
  "Sdk \<Rightarrow> PublicKey \<Rightarrow> Marketplace \<Rightarrow> Listing \<Rightarrow> GetNftData \<Rightarrow> Effect list" where
  "buyDerivations sdk pk m l d =
     [FindMetadataAccount (tokenMint d),
      FindEscrowPaymentAccountAddress (auctionHouse m) pk,
      FindPublicBidTradeStateAddress pk (auctionHouse m) (treasuryMint m) (tokenMint d)
        (buyerPrice l) 1,
      FindTradeStateAddress (seller l) (auctionHouse m) (tokenAccount d) (treasuryMint m)
        (tokenMint d) 0 1,
      FindAuctionHouseProgramAsSignerAddress,
      FindAssociatedTokenAccountAddress (tokenMint d) pk,
      FindBidReceiptAddress (buyerTradeState sdk pk m l d),
      FindPurchaseReceiptAddress (sellerTradeState l) (buyerTradeState sdk pk m l d)]"

subsection \<open>Accounts, arguments and instructions (lines 331-415)\<close>

definition publicBuyInstructionAccounts ::
  "Sdk \<Rightarrow> PublicKey \<Rightarrow> Marketplace \<Rightarrow> Listing \<Rightarrow> GetNftData \<Rightarrow> PublicBuyInstructionAccounts" where
  "publicBuyInstructionAccounts sdk pk m l d =
     \<lparr>PublicBuyInstructionAccounts.wallet = pk,
      PublicBuyInstructionAccounts.paymentAccount = pk,
      PublicBuyInstructionAccounts.transferAuthority = pk,
      PublicBuyInstructionAccounts.treasuryMint = treasuryMint m,
      PublicBuyInstructionAccounts.tokenAccount = tokenAccount d,
      PublicBuyInstructionAccounts.metadata = metadata sdk d,
      PublicBuyInstructionAccounts.escrowPaymentAccount = escrowPaymentAccount sdk pk m,
      PublicBuyInstructionAccounts.authority = authority m,
      PublicBuyInstructionAccounts.auctionHouse = auctionHouse m,
      PublicBuyInstructionAccounts.auctionHouseFeeAccount = auctionHouseFeeAccount m,
      PublicBuyInstructionAccounts.buyerTradeState = buyerTradeState sdk pk m l d\<rparr>"

definition publicBuyInstructionArgs ::
  "Sdk \<Rightarrow> PublicKey \<Rightarrow> Marketplace \<Rightarrow> Listing \<Rightarrow> GetNftData \<Rightarrow> PublicBuyInstructionArgs" where
  "publicBuyInstructionArgs sdk pk m l d =
     \<lparr>PublicBuyInstructionArgs.tradeStateBump = tradeStateBump sdk pk m l d,
      PublicBuyInstructionArgs.escrowPaymentBump = escrowPaymentBump sdk pk m,
      PublicBuyInstructionArgs.buyerPrice = buyerPrice l,
      PublicBuyInstructionArgs.tokenSize = 1\<rparr>"

definition executeSaleInstructionAccounts ::
  "Sdk \<Rightarrow> PublicKey \<Rightarrow> Marketplace \<Rightarrow> Listing \<Rightarrow> GetNftData \<Rightarrow> ExecuteSaleInstructionAccounts"
  where
  "executeSaleInstructionAccounts sdk pk m l d =
     \<lparr>ExecuteSaleInstructionAccounts.buyer = pk,
      ExecuteSaleInstructionAccounts.seller = seller l,
      ExecuteSaleInstructionAccounts.tokenAccount = tokenAccount d,
      ExecuteSaleInstructionAccounts.tokenMint = tokenMint d,
      ExecuteSaleInstructionAccounts.metadata = metadata sdk d,
      ExecuteSaleInstructionAccounts.treasuryMint = treasuryMint m,
      ExecuteSaleInstructionAccounts.escrowPaymentAccount = escrowPaymentAccount sdk pk m,
      ExecuteSaleInstructionAccounts.sellerPaymentReceiptAccount = sellerPaymentReceiptAccount l,
      ExecuteSaleInstructionAccounts.buyerReceiptTokenAccount =
        buyerReceiptTokenAccount sdk pk d,
      ExecuteSaleInstructionAccounts.authority = authority m,
      ExecuteSaleInstructionAccounts.auctionHouse = auctionHouse m,
      ExecuteSaleInstructionAccounts.auctionHouseFeeAccount = auctionHouseFeeAccount m,
      ExecuteSaleInstructionAccounts.auctionHouseTreasury = auctionHouseTreasury m,
      ExecuteSaleInstructionAccounts.buyerTradeState = buyerTradeState sdk pk m l d,
      ExecuteSaleInstructionAccounts.sellerTradeState = sellerTradeState l,
      ExecuteSaleInstructionAccounts.freeTradeState = freeTradeState sdk m l d,
      ExecuteSaleInstructionAccounts.programAsSigner = programAsSigner sdk\<rparr>"

definition executeSaleInstructionArgs ::
  "Sdk \<Rightarrow> PublicKey \<Rightarrow> Marketplace \<Rightarrow> Listing \<Rightarrow> GetNftData \<Rightarrow> ExecuteSaleInstructionArgs" where
  "executeSaleInstructionArgs sdk pk m l d =
     \<lparr>ExecuteSaleInstructionArgs.escrowPaymentBump = escrowPaymentBump sdk pk m,
      ExecuteSaleInstructionArgs.freeTradeStateBump = freeTradeStateBump sdk m l d,
      ExecuteSaleInstructionArgs.programAsSignerBump = programAsSignerBump sdk,
      ExecuteSaleInstructionArgs.buyerPrice = buyerPrice l,
      ExecuteSaleInstructionArgs.tokenSize = 1\<rparr>"

definition printBidReceiptAccounts ::
  "Sdk \<Rightarrow> PublicKey \<Rightarrow> Marketplace \<Rightarrow> Listing \<Rightarrow> GetNftData
    \<Rightarrow> PrintBidReceiptInstructionAccounts" where
  "printBidReceiptAccounts sdk pk m l d =
     \<lparr>PrintBidReceiptInstructionAccounts.bookkeeper = pk,
      PrintBidReceiptInstructionAccounts.receipt = bidReceipt sdk pk m l d,
      PrintBidReceiptInstructionAccounts.instruction = SYSVAR_INSTRUCTIONS_PUBKEY sdk\<rparr>"

definition printBidReceiptArgs ::
  "Sdk \<Rightarrow> PublicKey \<Rightarrow> Marketplace \<Rightarrow> Listing \<Rightarrow> GetNftData \<Rightarrow> PrintBidReceiptInstructionArgs"
  where
  "printBidReceiptArgs sdk pk m l d =
     \<lparr>PrintBidReceiptInstructionArgs.receiptBump = bidReceiptBump sdk pk m l d\<rparr>"

definition printPurchaseReceiptAccounts ::
  "Sdk \<Rightarrow> PublicKey \<Rightarrow> Marketplace \<Rightarrow> Listing \<Rightarrow> GetNftData
    \<Rightarrow> PrintPurchaseReceiptInstructionAccounts" where
  "printPurchaseReceiptAccounts sdk pk m l d =
     \<lparr>PrintPurchaseReceiptInstructionAccounts.bookkeeper = pk,
      PrintPurchaseReceiptInstructionAccounts.purchaseReceipt = purchaseReceipt sdk pk m l d,
      PrintPurchaseReceiptInstructionAccounts.bidReceipt = bidReceipt sdk pk m l d,
      PrintPurchaseReceiptInstructionAccounts.listingReceipt = listingReceipt l,
      PrintPurchaseReceiptInstructionAccounts.instruction = SYSVAR_INSTRUCTIONS_PUBKEY sdk\<rparr>"

definition printPurchaseReceiptArgs ::
  "Sdk \<Rightarrow> PublicKey \<Rightarrow> Marketplace \<Rightarrow> Listing \<Rightarrow> GetNftData
    \<Rightarrow> PrintPurchaseReceiptInstructionArgs" where
  "printPurchaseReceiptArgs sdk pk m l d =
     \<lparr>PrintPurchaseReceiptInstructionArgs.purchaseReceiptBump =
        purchaseReceiptBump sdk pk m l d\<rparr>"

definition publicBuyInstruction ::
  "Sdk \<Rightarrow> PublicKey \<Rightarrow> Marketplace \<Rightarrow> Listing \<Rightarrow> GetNftData \<Rightarrow> TransactionInstruction" where
  "publicBuyInstruction sdk pk m l d =
     createPublicBuyInstruction sdk (publicBuyInstructionAccounts sdk pk m l d)
       (publicBuyInstructionArgs sdk pk m l d)"

definition printBidReceiptInstruction ::
  "Sdk \<Rightarrow> PublicKey \<Rightarrow> Marketplace \<Rightarrow> Listing \<Rightarrow> GetNftData \<Rightarrow> TransactionInstruction" where
  "printBidReceiptInstruction sdk pk m l d =
     createPrintBidReceiptInstruction sdk (printBidReceiptAccounts sdk pk m l d)
       (printBidReceiptArgs sdk pk m l d)"

definition executeSaleInstruction ::
  "Sdk \<Rightarrow> PublicKey \<Rightarrow> Marketplace \<Rightarrow> Listing \<Rightarrow> GetNftData \<Rightarrow> TransactionInstruction" where
  "executeSaleInstruction sdk pk m l d =
     createExecuteSaleInstruction sdk (executeSaleInstructionAccounts sdk pk m l d)
       (executeSaleInstructionArgs sdk pk m l d)"

definition printPurchaseReceiptInstruction ::
  "Sdk \<Rightarrow> PublicKey \<Rightarrow> Marketplace \<Rightarrow> Listing \<Rightarrow> GetNftData \<Rightarrow> TransactionInstruction" where
  "printPurchaseReceiptInstruction sdk pk m l d =
     createPrintPurchaseReceiptInstruction sdk (printPurchaseReceiptAccounts sdk pk m l d)
       (printPurchaseReceiptArgs sdk pk m l d)"

subsection \<open>The assembled transaction (lines 417-436)\<close>

text \<open>
  The third instruction is built in place (lines 423-434): program id
  \<open>AuctionHouseProgram.PUBKEY\<close>, the data of \<open>executeSaleInstruction\<close>, and its keys
  followed by one account per creator of the NFT.
\<close>

definition creatorKey :: "NftCreator \<Rightarrow> AccountMeta" where
  "creatorKey creator =
     \<lparr>pubkey = PublicKey (NftCreator.address creator), isSigner = False, isWritable = True\<rparr>"

definition executeSaleWithCreators ::
  "Sdk \<Rightarrow> PublicKey \<Rightarrow> Marketplace \<Rightarrow> Listing \<Rightarrow> GetNftData \<Rightarrow> TransactionInstruction" where
  "executeSaleWithCreators sdk pk m l d =
     \<lparr>programId = PUBKEY sdk,
      keys = keys (executeSaleInstruction sdk pk m l d) @ map creatorKey (creators (nft d)),
      data = TransactionInstruction.data (executeSaleInstruction sdk pk m l d)\<rparr>"

definition buyTxt ::
  "Sdk \<Rightarrow> PublicKey \<Rightarrow> Marketplace \<Rightarrow> Listing \<Rightarrow> GetNftData \<Rightarrow> Transaction" where
  "buyTxt sdk pk m l d =
     addInstruction
       (addInstruction
         (addInstruction
           (addInstruction newTransaction (publicBuyInstruction sdk pk m l d))
           (printBidReceiptInstruction sdk pk m l d))
         (executeSaleWithCreators sdk pk m l d))
       (printPurchaseReceiptInstruction sdk pk m l d)"

section \<open>Locals of cancelListingTransaction (lines 477-529)\<close>

text \<open>
  The constants of lines 477-489 are written exactly as in the buy function and share
  its definitions (\<open>receipt\<close> is the listing's own address). The trade state is derived
  from the connected wallet's key (lines 491-499).
\<close>

definition receipt :: "Listing \<Rightarrow> PublicKey" where
  "receipt l = PublicKey (Listing.address l)"

definition tradeState :: "Sdk \<Rightarrow> PublicKey \<Rightarrow> Marketplace \<Rightarrow> Listing \<Rightarrow> GetNftData \<Rightarrow> PublicKey"
  where
  "tradeState sdk pk m l d =
     fst (findTradeStateAddress sdk pk (auctionHouse m) (tokenAccount d) (treasuryMint m)
            (tokenMint d) (buyerPrice l) 1)"

definition cancelDerivations ::
  "PublicKey \<Rightarrow> Marketplace \<Rightarrow> Listing \<Rightarrow> GetNftData \<Rightarrow> Effect list" where
  "cancelDerivations pk m l d =
     [FindTradeStateAddress pk (auctionHouse m) (tokenAccount d) (treasuryMint m) (tokenMint d)
        (buyerPrice l) 1]"

definition cancelInstructionAccounts ::
  "Sdk \<Rightarrow> PublicKey \<Rightarrow> Marketplace \<Rightarrow> Listing \<Rightarrow> GetNftData \<Rightarrow> CancelInstructionAccounts" where
  "cancelInstructionAccounts sdk pk m l d =
     \<lparr>CancelInstructionAccounts.wallet = pk,
      CancelInstructionAccounts.tokenAccount = tokenAccount d,
      CancelInstructionAccounts.tokenMint = tokenMint d,
      CancelInstructionAccounts.authority = authority m,
      CancelInstructionAccounts.auctionHouse = auctionHouse m,
      CancelInstructionAccounts.auctionHouseFeeAccount = auctionHouseFeeAccount m,
      CancelInstructionAccounts.tradeState = tradeState sdk pk m l d\<rparr>"

definition cancelInstructionArgs :: "Listing \<Rightarrow> CancelInstructionArgs" where
  "cancelInstructionArgs l =
     \<lparr>CancelInstructionArgs.buyerPrice = buyerPrice l, CancelInstructionArgs.tokenSize = 1\<rparr>"

definition cancelListingReceiptAccounts ::
  "Sdk \<Rightarrow> Listing \<Rightarrow> CancelListingReceiptInstructionAccounts" where
  "cancelListingReceiptAccounts sdk l =
     \<lparr>CancelListingReceiptInstructionAccounts.receipt = receipt l,
      CancelListingReceiptInstructionAccounts.instruction = SYSVAR_INSTRUCTIONS_PUBKEY sdk\<rparr>"

definition cancelInstruction ::
  "Sdk \<Rightarrow> PublicKey \<Rightarrow> Marketplace \<Rightarrow> Listing \<Rightarrow> GetNftData \<Rightarrow> TransactionInstruction" where
  "cancelInstruction sdk pk m l d =
     createCancelInstruction sdk (cancelInstructionAccounts sdk pk m l d) (cancelInstructionArgs l)"

definition cancelListingReceiptInstruction :: "Sdk \<Rightarrow> Listing \<Rightarrow> TransactionInstruction" where
  "cancelListingReceiptInstruction sdk l =
     createCancelListingReceiptInstruction sdk (cancelListingReceiptAccounts sdk l)"

definition cancelTxt ::
  "Sdk \<Rightarrow> PublicKey \<Rightarrow> Marketplace \<Rightarrow> Listing \<Rightarrow> GetNftData \<Rightarrow> Transaction" where
  "cancelTxt sdk pk m l d =
     addInstruction (addInstruction newTransaction (cancelInstruction sdk pk m l d))
       (cancelListingReceiptInstruction sdk l)"

section \<open>Signing, submission and reconciliation (lines 441-464 and 534-557)\<close>

text \<open>
  Both functions end with the same two \<open>try\<close> blocks. The first catches a failure of
  \<open>signTransaction\<close>, reports \<open>e.message\<close> and returns. The second covers the "Sending"
  toast, \<open>serialize\<close>, \<open>sendRawTransaction\<close>, \<open>confirmTransaction\<close>, \<open>refetch\<close> and the
  success toast with one handler, which reports \<open>e.message\<close>.
\<close>

definition signAndSubmit ::
  "Sdk \<Rightarrow> NftShow \<Rightarrow> (Transaction \<Rightarrow> Error + Transaction) \<Rightarrow> Transaction \<Rightarrow> Effect list" where
  "signAndSubmit sdk p sign t =
     SignTransaction t #
     (case sign t of
        Inl e \<Rightarrow> [ToastError (message e)]
      | Inr signed' \<Rightarrow>
          Toast ''Sending the transaction to Solana.'' #
          (case serialize sdk signed' of
             Inl e \<Rightarrow> [ToastError (message e)]
           | Inr raw \<Rightarrow>
               SendRawTransaction raw #
               (case sendRawTransaction (connection p) raw of
                  Inl e \<Rightarrow> [ToastError (message e)]
                | Inr signature \<Rightarrow>
                    ConfirmTransaction signature ''confirmed'' #
                    (case confirmTransaction (connection p) signature ''confirmed'' of
                       Inl e \<Rightarrow> [ToastError (message e)]
                     | Inr _ \<Rightarrow>
                         Refetch #
                         (case refetch p of
                            Inl e \<Rightarrow> [ToastError (message e)]
                          | Inr _ \<Rightarrow> [ToastSuccess ''The transaction was confirmed.''])))))"

text \<open>
  Lines 438-439 and 531-532: the recent blockhash is fetched outside any \<open>try\<close>, so its
  failure rejects the returned promise; otherwise the blockhash and the fee payer are set
  on the transaction, which then goes to the wallet.
\<close>

definition stampAndSend ::
  "Sdk \<Rightarrow> NftShow \<Rightarrow> (Transaction \<Rightarrow> Error + Transaction) \<Rightarrow> PublicKey \<Rightarrow> Effect list
    \<Rightarrow> Transaction \<Rightarrow> Run" where
  "stampAndSend sdk p sign pk derived t =
     (case getRecentBlockhash (connection p) of
        Inl e \<Rightarrow> \<lparr>effects = derived @ [GetRecentBlockhash, Rejected e], txn = Some t\<rparr>
      | Inr blockhash \<Rightarrow>
          (let t' = t\<lparr>recentBlockhash := Some blockhash, feePayer := Some pk\<rparr>
           in \<lparr>effects = derived @ GetRecentBlockhash # signAndSubmit sdk p sign t',
               txn = Some t'\<rparr>))"

section \<open>The two handlers\<close>

text \<open>
  \<open>buyNftTransaction\<close> (lines 259-465): without a wallet key or signing function it calls
  \<open>login()\<close> and returns; without a listing or a loaded snapshot, or when the viewer owns
  the NFT, it returns at once. Line 283 converts the price outside any \<open>try\<close> and before
  the first library call and \<open>new Transaction()\<close>: where it throws, the returned
  promise rejects and nothing else happens.
\<close>

definition buyNftTransaction :: "Sdk \<Rightarrow> NftShow \<Rightarrow> Run" where
  "buyNftTransaction sdk p =
     (case (publicKey p, signTransaction p) of
        (Some pk, Some sign) \<Rightarrow>
          (case (listing p, NftShow.data p) of
             (Some l, Some d) \<Rightarrow>
               if isOwner p then \<lparr>effects = [], txn = None\<rparr>
               else
                 (case toNumber (Listing.price l) of
                    Inl e \<Rightarrow> \<lparr>effects = [Rejected e], txn = None\<rparr>
                  | Inr n \<Rightarrow>
                      stampAndSend sdk p sign pk (buyDerivations sdk pk (marketplace p) l d)
                        (buyTxt sdk pk (marketplace p) l d))
           | _ \<Rightarrow> \<lparr>effects = [], txn = None\<rparr>)
      | _ \<Rightarrow> \<lparr>effects = [Login], txn = None\<rparr>)"

text \<open>
  \<open>cancelListingTransaction\<close> (lines 467-558): the same wallet check; it returns at once
  without a listing or a loaded snapshot, or when the viewer does not own the NFT. Line
  489 converts the price as line 283 does, before the derivation of line 491.
\<close>

definition cancelListingTransaction :: "Sdk \<Rightarrow> NftShow \<Rightarrow> Run" where
  "cancelListingTransaction sdk p =
     (case (publicKey p, signTransaction p) of
        (Some pk, Some sign) \<Rightarrow>
          (case (listing p, NftShow.data p) of
             (Some l, Some d) \<Rightarrow>
               if \<not> isOwner p then \<lparr>effects = [], txn = None\<rparr>
               else
                 (case toNumber (Listing.price l) of
                    Inl e \<Rightarrow> \<lparr>effects = [Rejected e], txn = None\<rparr>
                  | Inr n \<Rightarrow>
                      stampAndSend sdk p sign pk (cancelDerivations pk (marketplace p) l d)
                        (cancelTxt sdk pk (marketplace p) l d))
           | _ \<Rightarrow> \<lparr>effects = [], txn = None\<rparr>)
      | _ \<Rightarrow> \<lparr>effects = [Login], txn = None\<rparr>)"

text \<open>
  The two forms of the page submit to these handlers (lines 752-754 and 787-789); an
  attempt is one submission.
\<close>

datatype Intent = Buy | CancelListing

definition attempt :: "Intent \<Rightarrow> Sdk \<Rightarrow> NftShow \<Rightarrow> Run" where
  "attempt i sdk p =
     (case i of Buy \<Rightarrow> buyNftTransaction sdk p | CancelListing \<Rightarrow> cancelListingTransaction sdk p)"

section \<open>Observations on a run\<close>

text \<open>The toast notifications of a run, in order: what the user sees.\<close>

fun isNotification :: "Effect \<Rightarrow> bool" where
  "isNotification (Toast s) = True"
| "isNotification (ToastSuccess s) = True"
| "isNotification (ToastError s) = True"
| "isNotification e = False"

definition notifications :: "Effect list \<Rightarrow> Effect list" where
  "notifications es = filter isNotification es"

text \<open>
  The first exception among the awaited steps of signing, submission and confirmation
  for the transaction handed to the wallet: \<open>None\<close> when all of them resolve.
\<close>

definition firstFailure ::
  "Sdk \<Rightarrow> NftShow \<Rightarrow> (Transaction \<Rightarrow> Error + Transaction) \<Rightarrow> Transaction \<Rightarrow> Error option" where
  "firstFailure sdk p sign t =
     (case sign t of
        Inl e \<Rightarrow> Some e
      | Inr signed' \<Rightarrow>
          (case serialize sdk signed' of
             Inl e \<Rightarrow> Some e
           | Inr raw \<Rightarrow>
               (case sendRawTransaction (connection p) raw of
                  Inl e \<Rightarrow> Some e
                | Inr signature \<Rightarrow>
                    (case confirmTransaction (connection p) signature ''confirmed'' of
                       Inl e \<Rightarrow> Some e
                     | Inr _ \<Rightarrow> None))))"

text \<open>The calls to the address finders of the program libraries.\<close>

fun isDerivation :: "Effect \<Rightarrow> bool" where
  "isDerivation (FindMetadataAccount a) = True"
| "isDerivation (FindEscrowPaymentAccountAddress a b) = True"
| "isDerivation (FindPublicBidTradeStateAddress a b c d e f) = True"
| "isDerivation (FindTradeStateAddress a b c d e f g) = True"
| "isDerivation FindAuctionHouseProgramAsSignerAddress = True"
| "isDerivation (FindAssociatedTokenAccountAddress a b) = True"
| "isDerivation (FindBidReceiptAddress a) = True"
| "isDerivation (FindPurchaseReceiptAddress a b) = True"
| "isDerivation e = False"


section \<open>A sample marketplace, listing and wallet\<close>

text \<open>
  Concrete inputs on which the theorems below are exercised: a listing by Alice at
  2,500,000,000 lamports, two creators, and a page parameterised by the viewer's and the
  owner's address.
\<close>

definition sampleSdk :: Sdk where
  "sampleSdk =
     \<lparr>PUBKEY = PublicKey ''haus'',
      SYSVAR_INSTRUCTIONS_PUBKEY = PublicKey ''Sysvar1nstructions'',
      findMetadataAccount = (\<lambda>mint. (PublicKey (''meta/'' @ toBase58 mint), 255)),
      findEscrowPaymentAccountAddress = (\<lambda>ah w. (PublicKey (''escrow/'' @ toBase58 w), 254)),
      findPublicBidTradeStateAddress =
        (\<lambda>w ah tm mint price size. (PublicKey (''bid/'' @ toBase58 w), 253)),
      findTradeStateAddress =
        (\<lambda>w ah ta tm mint price size.
           (PublicKey (''trade/'' @ toBase58 w), if price = 0 then 252 else 251)),
      findAuctionHouseProgramAsSignerAddress = (PublicKey ''signer'', 250),
      findAssociatedTokenAccountAddress = (\<lambda>mint w. (PublicKey (''ata/'' @ toBase58 w), 249)),
      findBidReceiptAddress = (\<lambda>ts. (PublicKey (''receipt/'' @ toBase58 ts), 248)),
      findPurchaseReceiptAddress =
        (\<lambda>s b. (PublicKey (''purchase/'' @ toBase58 s @ ''/'' @ toBase58 b), 247)),
      createPublicBuyInstruction =
        (\<lambda>a args. \<lparr>programId = PublicKey ''haus'',
           keys = [\<lparr>pubkey = PublicBuyInstructionAccounts.wallet a, isSigner = True,
                    isWritable = False\<rparr>],
           data = [1]\<rparr>),
      createExecuteSaleInstruction =
        (\<lambda>a args. \<lparr>programId = PublicKey ''haus'',
           keys = [\<lparr>pubkey = ExecuteSaleInstructionAccounts.buyer a, isSigner = False,
                    isWritable = True\<rparr>,
                   \<lparr>pubkey = ExecuteSaleInstructionAccounts.seller a, isSigner = False,
                    isWritable = True\<rparr>],
           data = [3]\<rparr>),
      createCancelInstruction =
        (\<lambda>a args. \<lparr>programId = PublicKey ''haus'',
           keys = [\<lparr>pubkey = CancelInstructionAccounts.wallet a, isSigner = False,
                    isWritable = True\<rparr>,
                   \<lparr>pubkey = CancelInstructionAccounts.tradeState a, isSigner = False,
                    isWritable = True\<rparr>],
           data = [5]\<rparr>),
      createPrintBidReceiptInstruction =
        (\<lambda>a args. \<lparr>programId = PublicKey ''haus'',
           keys = [\<lparr>pubkey = PrintBidReceiptInstructionAccounts.receipt a, isSigner = False,
                    isWritable = True\<rparr>],
           data = [2]\<rparr>),
      createCancelListingReceiptInstruction =
        (\<lambda>a. \<lparr>programId = PublicKey ''haus'',
           keys = [\<lparr>pubkey = CancelListingReceiptInstructionAccounts.receipt a, isSigner = False,
                    isWritable = True\<rparr>],
           data = [6]\<rparr>),
      createPrintPurchaseReceiptInstruction =
        (\<lambda>a args. \<lparr>programId = PublicKey ''haus'',
           keys = [\<lparr>pubkey = PrintPurchaseReceiptInstructionAccounts.purchaseReceipt a,
                    isSigner = False, isWritable = True\<rparr>],
           data = [4]\<rparr>),
      serialize = (\<lambda>t. Inr [7])\<rparr>"

definition sampleMarketplace :: Marketplace where
  "sampleMarketplace =
     \<lparr>Marketplace.auctionHouse =
        \<lparr>AuctionHouse.address = ''AH'', AuctionHouse.treasuryMint = ''So11'',
         AuctionHouse.auctionHouseTreasury = ''Treasury'', AuctionHouse.authority = ''Authority'',
         AuctionHouse.auctionHouseFeeAccount = ''Fee''\<rparr>\<rparr>"

definition sampleListing :: Listing where
  "sampleListing =
     \<lparr>Listing.address = ''ListingReceipt'', Listing.auctionHouse = ''AH'',
      Listing.seller = ''Alice'', Listing.price = 2500000000, Listing.tokenSize = 1,
      Listing.tradeState = ''AliceTradeState'', Listing.tradeStateBump = 255\<rparr>"

definition sampleData :: "string \<Rightarrow> GetNftData" where
  "sampleData ownerAddress =
     \<lparr>nft = \<lparr>mintAddress = ''Mint'',
              owner = \<lparr>NftOwner.address = ownerAddress,
                       associatedTokenAccountAddress = ''OwnerATA''\<rparr>,
              creators = [\<lparr>NftCreator.address = ''Creator1''\<rparr>,
                          \<lparr>NftCreator.address = ''Creator2''\<rparr>],
              listings = [sampleListing]\<rparr>\<rparr>"

definition sampleSign :: "Transaction \<Rightarrow> Error + Transaction" where
  "sampleSign t = Inr (t\<lparr>signatures := [''WalletSignature'']\<rparr>)"

definition sampleConnection :: Connection where
  "sampleConnection =
     \<lparr>getRecentBlockhash = Inr ''Blockhash'',
      sendRawTransaction = (\<lambda>raw. Inr ''TxId''),
      confirmTransaction = (\<lambda>signature commitment. Inr ())\<rparr>"

definition samplePage :: "string \<Rightarrow> string \<Rightarrow> NftShow" where
  "samplePage viewer ownerAddress =
     \<lparr>publicKey = Some (PublicKey viewer), signTransaction = Some sampleSign,
      connection = sampleConnection, marketplace = sampleMarketplace,
      data = Some (sampleData ownerAddress), refetch = Inr ()\<rparr>"

subsection \<open>Further scenarios\<close>

text \<open>
  Variations of the sample page: a query that fails on re-fetch, a wallet that rejects,
  a network that fails on submission or on confirmation, a page without a wallet, a
  wallet that cannot sign, a page whose snapshot has not loaded, and a marketplace with
  another auction house.
\<close>

definition refetchFailsPage :: NftShow where
  "refetchFailsPage = (samplePage ''Bob'' ''Alice'')\<lparr>refetch := Inl (Error ''Network error'')\<rparr>"

definition rejectingSign :: "Transaction \<Rightarrow> Error + Transaction" where
  "rejectingSign t = Inl (Error ''User rejected the request.'')"

definition signFailsPage :: NftShow where
  "signFailsPage = (samplePage ''Bob'' ''Alice'')\<lparr>signTransaction := Some rejectingSign\<rparr>"

definition sendFailsPage :: NftShow where
  "sendFailsPage =
     (samplePage ''Bob'' ''Alice'')
       \<lparr>connection :=
          sampleConnection\<lparr>sendRawTransaction := (\<lambda>raw. Inl (Error ''Network request failed''))\<rparr>\<rparr>"

definition confirmFailsPage :: NftShow where
  "confirmFailsPage =
     (samplePage ''Bob'' ''Alice'')
       \<lparr>connection :=
          sampleConnection
            \<lparr>confirmTransaction :=
               (\<lambda>signature commitment. Inl (Error ''Network request failed''))\<rparr>\<rparr>"

definition disconnectedPage :: NftShow where
  "disconnectedPage = (samplePage ''Bob'' ''Alice'')\<lparr>publicKey := None, signTransaction := None\<rparr>"

definition readOnlyWalletPage :: NftShow where
  "readOnlyWalletPage = (samplePage ''Alice'' ''Alice'')\<lparr>signTransaction := None\<rparr>"

definition unloadedPage :: NftShow where
  "unloadedPage = (samplePage ''Bob'' ''Alice'')\<lparr>data := None\<rparr>"

definition otherHousePage :: NftShow where
  "otherHousePage =
     (samplePage ''Bob'' ''Alice'')
       \<lparr>marketplace :=
          \<lparr>Marketplace.auctionHouse =
             (Marketplace.auctionHouse sampleMarketplace)\<lparr>AuctionHouse.address := ''OtherAH''\<rparr>\<rparr>\<rparr>"






section \<open>Auxiliary facts\<close>

lemmas sample_defs =
  sampleSdk_def sampleMarketplace_def sampleListing_def sampleData_def sampleSign_def
  sampleConnection_def samplePage_def

lemma listing_None_iff:
  "listing p = None \<longleftrightarrow>
     (\<forall>d. NftShow.data p = Some d \<longrightarrow>
        (\<forall>l \<in> set (listings (nft d)).
           Listing.auctionHouse l \<noteq> AuctionHouse.address (Marketplace.auctionHouse (marketplace p))))"
  by (cases "NftShow.data p") (auto simp: listing_def find_None_iff)

lemma samplePage_listing: "listing (samplePage v ow) = Some sampleListing"
  by (simp add: listing_def sample_defs)

lemma samplePage_isOwner: "isOwner (samplePage v ow) = (ow = v)"
  by (simp add: isOwner_def sample_defs)

lemmas instruction_defs =
  publicBuyInstruction_def printBidReceiptInstruction_def executeSaleWithCreators_def
  executeSaleInstruction_def printPurchaseReceiptInstruction_def cancelInstruction_def
  cancelListingReceiptInstruction_def



lemma buyDerivations_isDerivation: "list_all isDerivation (buyDerivations sdk pk m l d)"
  by (simp add: buyDerivations_def)

lemma cancelDerivations_isDerivation: "list_all isDerivation (cancelDerivations pk m l d)"
  by (simp add: cancelDerivations_def)










lemma attempt_effects:
  assumes "signTransaction p = Some sign" and "txn (attempt i sdk p) = Some t"
  shows "\<exists>ds. list_all isDerivation ds \<and>
           effects (attempt i sdk p) =
             ds @ GetRecentBlockhash #
               (case getRecentBlockhash (connection p) of
                  Inl e \<Rightarrow> [Rejected e]
                | Inr b \<Rightarrow> signAndSubmit sdk p sign t)"
proof (cases i)
  case Buy
  show ?thesis
    using assms buyDerivations_isDerivation unfolding Buy
    by (auto simp: attempt_def buyNftTransaction_def stampAndSend_def Let_def
        split: option.splits if_splits sum.splits)
next
  case CancelListing
  show ?thesis
    using assms cancelDerivations_isDerivation unfolding CancelListing
    by (auto simp: attempt_def cancelListingTransaction_def stampAndSend_def Let_def
        split: option.splits if_splits sum.splits)
qed

lemma derivations_no_refetch: "list_all isDerivation ds \<Longrightarrow> count_list ds Refetch = 0"
  by (induction ds) auto

lemma derivations_no_notifications: "list_all isDerivation ds \<Longrightarrow> notifications ds = []"
  unfolding notifications_def
proof (induction ds)
  case Nil
  then show ?case by simp
next
  case (Cons x xs)
  then show ?case by (cases x) auto
qed

lemma derivations_no_success: "list_all isDerivation ds \<Longrightarrow> ToastSuccess s \<notin> set ds"
  by (auto simp: list_all_iff)

lemma signAndSubmit_refetch:
  "count_list (signAndSubmit sdk p sign t) Refetch =
     (if firstFailure sdk p sign t = None then 1 else 0)"
  by (simp add: signAndSubmit_def firstFailure_def split: sum.splits)

lemma signAndSubmit_failure:
  assumes "firstFailure sdk p sign t = Some e"
  shows "last (signAndSubmit sdk p sign t) = ToastError (message e)"
    and "ToastSuccess s \<notin> set (signAndSubmit sdk p sign t)"
  using assms by (auto simp: signAndSubmit_def firstFailure_def split: sum.splits)

lemma signAndSubmit_confirmed:
  assumes "firstFailure sdk p sign t = None"
  shows "\<exists>pre. signAndSubmit sdk p sign t =
           pre @ Refetch #
             (case refetch p of
                Inl e \<Rightarrow> [ToastError (message e)]
              | Inr u \<Rightarrow> [ToastSuccess ''The transaction was confirmed.''])
           \<and> (\<forall>s. ToastSuccess s \<notin> set pre)"
proof -
  from assms obtain s raw sg where
    "sign t = Inr s" "serialize sdk s = Inr raw" "sendRawTransaction (connection p) raw = Inr sg"
    "confirmTransaction (connection p) sg ''confirmed'' = Inr ()"
    by (auto simp: firstFailure_def split: sum.splits)
  then have "signAndSubmit sdk p sign t =
      [SignTransaction t, Toast ''Sending the transaction to Solana.'', SendRawTransaction raw,
       ConfirmTransaction sg ''confirmed''] @ Refetch #
             (case refetch p of
                Inl e \<Rightarrow> [ToastError (message e)]
              | Inr u \<Rightarrow> [ToastSuccess ''The transaction was confirmed.''])"
    by (simp add: signAndSubmit_def)
  then show ?thesis by (intro exI conjI) (assumption, simp)
qed

lemmas page_defs =
  refetchFailsPage_def rejectingSign_def signFailsPage_def sendFailsPage_def confirmFailsPage_def
  disconnectedPage_def

lemmas handler_defs =
  attempt_def buyNftTransaction_def cancelListingTransaction_def stampAndSend_def
  signAndSubmit_def listing_def isOwner_def toNumber_def Let_def

lemmas world_defs =
  sampleMarketplace_def sampleListing_def sampleData_def sampleSign_def sampleConnection_def
  samplePage_def

lemma sample_buy_txn: "\<exists>t. txn (attempt Buy sampleSdk (samplePage ''Bob'' ''Alice'')) = Some t"
  by (simp add: handler_defs world_defs)


lemma confirmFails_txn: "\<exists>t. txn (attempt Buy sampleSdk confirmFailsPage) = Some t"
  by (simp add: handler_defs world_defs page_defs)

lemma sendFails_txn: "\<exists>t. txn (attempt Buy sampleSdk sendFailsPage) = Some t"
  by (simp add: handler_defs world_defs page_defs)



lemma notifications_attempt:
  assumes "signTransaction p = Some sign" and "txn (attempt i sdk p) = Some t"
    and "getRecentBlockhash (connection p) = Inr b"
  shows "notifications (effects (attempt i sdk p)) = notifications (signAndSubmit sdk p sign t)"
proof -
  from attempt_effects [OF assms(1,2)] obtain ds where
    "list_all isDerivation ds"
    "effects (attempt i sdk p) = ds @ GetRecentBlockhash # signAndSubmit sdk p sign t"
    by (auto simp: assms(3))
  then show ?thesis
    using derivations_no_notifications [of ds] by (simp add: notifications_def)
qed






section \<open>Instruction order\<close>




section \<open>Creator accounts of execute-sale\<close>




section \<open>Re-fetch and notifications\<close>

text \<open>
  C3 (amended). In every run of Buy or Cancel that assembled a transaction, the snapshot
  is re-fetched exactly once if the blockhash was obtained and signing, serialization,
  submission and confirmation all resolved, and never otherwise. When one of those four
  steps throws, the run ends with an error notification carrying that error's message and
  shows no success notification. When they all resolve, the run ends with the re-fetch
  followed by the success notification if the re-fetch itself resolves; if the re-fetch
  throws, it ends with the re-fetch followed by an error notification carrying the
  re-fetch error's message, and no success notification is shown.
\<close>

theorem refetch_iff_confirmed:
  assumes "signTransaction p = Some sign" and "txn (attempt i sdk p) = Some t"
  shows "count_list (effects (attempt i sdk p)) Refetch =
           (if \<not> isl (getRecentBlockhash (connection p)) \<and> firstFailure sdk p sign t = None
            then 1 else 0)
       \<and> (\<forall>e. \<not> isl (getRecentBlockhash (connection p)) \<and> firstFailure sdk p sign t = Some e \<longrightarrow>
             last (effects (attempt i sdk p)) = ToastError (message e) \<and>
             (\<forall>s. ToastSuccess s \<notin> set (effects (attempt i sdk p))))
       \<and> (\<not> isl (getRecentBlockhash (connection p)) \<and> firstFailure sdk p sign t = None \<and>
            refetch p = Inr () \<longrightarrow>
             (\<exists>pre. effects (attempt i sdk p) =
                pre @ [Refetch, ToastSuccess ''The transaction was confirmed.'']))
       \<and> (\<forall>e. \<not> isl (getRecentBlockhash (connection p)) \<and> firstFailure sdk p sign t = None \<and>
            refetch p = Inl e \<longrightarrow>
             (\<exists>pre. effects (attempt i sdk p) = pre @ [Refetch, ToastError (message e)]) \<and>
             (\<forall>s. ToastSuccess s \<notin> set (effects (attempt i sdk p))))"
proof -
  from attempt_effects [OF assms] obtain ds where
    ds: "list_all isDerivation ds" and
    es: "effects (attempt i sdk p) =
           ds @ GetRecentBlockhash #
             (case getRecentBlockhash (connection p) of
                Inl e \<Rightarrow> [Rejected e]
              | Inr b \<Rightarrow> signAndSubmit sdk p sign t)"
    by blast
  note nr = derivations_no_refetch [OF ds] and ns = derivations_no_success [OF ds]
  have nonempty: "signAndSubmit sdk p sign t \<noteq> []"
    by (simp add: signAndSubmit_def)
  have 1: "count_list (effects (attempt i sdk p)) Refetch =
           (if \<not> isl (getRecentBlockhash (connection p)) \<and> firstFailure sdk p sign t = None
            then 1 else 0)"
    by (cases "getRecentBlockhash (connection p)") (simp_all add: es nr signAndSubmit_refetch)
  have 2: "last (effects (attempt i sdk p)) = ToastError (message e) \<and>
             (\<forall>s. ToastSuccess s \<notin> set (effects (attempt i sdk p)))"
    if "\<not> isl (getRecentBlockhash (connection p)) \<and> firstFailure sdk p sign t = Some e" for e
  proof -
    from that obtain b where b: "getRecentBlockhash (connection p) = Inr b"
      by (cases "getRecentBlockhash (connection p)") auto
    from that have f: "firstFailure sdk p sign t = Some e" by simp
    show ?thesis
      using signAndSubmit_failure [OF f] ns nonempty by (simp add: es b)
  qed
  have 3: "\<exists>pre. effects (attempt i sdk p) =
                pre @ [Refetch, ToastSuccess ''The transaction was confirmed.'']"
    if "\<not> isl (getRecentBlockhash (connection p)) \<and> firstFailure sdk p sign t = None \<and>
            refetch p = Inr ()"
  proof -
    from that obtain b where b: "getRecentBlockhash (connection p) = Inr b"
      by (cases "getRecentBlockhash (connection p)") auto
    from that have f: "firstFailure sdk p sign t = None" and r: "refetch p = Inr ()" by simp_all
    from signAndSubmit_confirmed [OF f] obtain pre where
      "signAndSubmit sdk p sign t =
         pre @ [Refetch, ToastSuccess ''The transaction was confirmed.'']"
      by (auto simp: r)
    then have "effects (attempt i sdk p) =
        (ds @ GetRecentBlockhash # pre) @ [Refetch, ToastSuccess ''The transaction was confirmed.'']"
      by (simp add: es b)
    then show ?thesis by blast
  qed
  have 4: "(\<exists>pre. effects (attempt i sdk p) = pre @ [Refetch, ToastError (message e)]) \<and>
             (\<forall>s. ToastSuccess s \<notin> set (effects (attempt i sdk p)))"
    if "\<not> isl (getRecentBlockhash (connection p)) \<and> firstFailure sdk p sign t = None \<and>
            refetch p = Inl e" for e
  proof -
    from that obtain b where b: "getRecentBlockhash (connection p) = Inr b"
      by (cases "getRecentBlockhash (connection p)") auto
    from that have f: "firstFailure sdk p sign t = None" and r: "refetch p = Inl e" by simp_all
    from signAndSubmit_confirmed [OF f] obtain pre where
      pre: "signAndSubmit sdk p sign t = pre @ [Refetch, ToastError (message e)]"
        "\<forall>s. ToastSuccess s \<notin> set pre"
      by (auto simp: r)
    then have "effects (attempt i sdk p) =
        (ds @ GetRecentBlockhash # pre) @ [Refetch, ToastError (message e)]"
      by (simp add: es b)
    moreover have "\<forall>s. ToastSuccess s \<notin> set (effects (attempt i sdk p))"
      using pre ns by (simp add: es b)
    ultimately show ?thesis by blast
  qed
  from 1 2 3 4 show ?thesis by blast
qed

theorem refetch_iff_confirmed_witness:
  "count_list (effects (attempt Buy sampleSdk (samplePage ''Bob'' ''Alice''))) Refetch = 1
   \<and> (\<exists>pre. effects (attempt Buy sampleSdk (samplePage ''Bob'' ''Alice'')) =
         pre @ [Refetch, ToastSuccess ''The transaction was confirmed.''])
   \<and> count_list (effects (attempt Buy sampleSdk confirmFailsPage)) Refetch = 0
   \<and> last (effects (attempt Buy sampleSdk confirmFailsPage)) = ToastError ''Network request failed''"
proof -
  obtain t where t: "txn (attempt Buy sampleSdk (samplePage ''Bob'' ''Alice'')) = Some t"
    using sample_buy_txn by blast
  have s: "signTransaction (samplePage ''Bob'' ''Alice'') = Some sampleSign"
    by (simp add: samplePage_def)
  have ok: "\<not> isl (getRecentBlockhash (connection (samplePage ''Bob'' ''Alice''))) \<and>
      firstFailure sampleSdk (samplePage ''Bob'' ''Alice'') sampleSign t = None \<and>
      refetch (samplePage ''Bob'' ''Alice'') = Inr ()"
    by (simp add: firstFailure_def sample_defs)
  obtain u where u: "txn (attempt Buy sampleSdk confirmFailsPage) = Some u"
    using confirmFails_txn by blast
  have s': "signTransaction confirmFailsPage = Some sampleSign"
    by (simp add: page_defs samplePage_def)
  have bad: "\<not> isl (getRecentBlockhash (connection confirmFailsPage)) \<and>
      firstFailure sampleSdk confirmFailsPage sampleSign u = Some (Error ''Network request failed'')"
    by (simp add: firstFailure_def sample_defs page_defs)
  from refetch_iff_confirmed [OF s t] ok refetch_iff_confirmed [OF s' u] bad show ?thesis
    by auto
qed

text \<open>
  C3 as stated has every confirmed run followed by a success notification. A Buy whose
  confirmation resolves but whose re-fetch rejects with "Network error" re-fetches once
  and then shows the error notification; no success notification appears.
\<close>

theorem refetch_rejected_counterexample:
  "ConfirmTransaction ''TxId'' ''confirmed'' \<in> set (effects (attempt Buy sampleSdk refetchFailsPage))
   \<and> confirmTransaction (connection refetchFailsPage) ''TxId'' ''confirmed'' = Inr ()
   \<and> count_list (effects (attempt Buy sampleSdk refetchFailsPage)) Refetch = 1
   \<and> notifications (effects (attempt Buy sampleSdk refetchFailsPage)) =
       [Toast ''Sending the transaction to Solana.'', ToastError ''Network error'']"
  by (simp add: handler_defs notifications_def buyDerivations_def sample_defs page_defs)

section \<open>Guards\<close>

text \<open>
  C4. With the wallet connected, a Buy returns at once, with no call made, no notification
  and no transaction created, when there is no listing for the marketplace's auction
  house, or the viewer owns the NFT, or the snapshot is not loaded.
\<close>

theorem buy_guards_abort:
  assumes "publicKey p = Some pk" and "signTransaction p = Some sign"
    and "listing p = None \<or> isOwner p \<or> NftShow.data p = None"
  shows "buyNftTransaction sdk p = \<lparr>effects = [], txn = None\<rparr>"
  using assms by (auto simp: buyNftTransaction_def split: option.splits)

theorem buy_guards_abort_witness:
  "buyNftTransaction sampleSdk otherHousePage = \<lparr>effects = [], txn = None\<rparr>
   \<and> buyNftTransaction sampleSdk (samplePage ''Alice'' ''Alice'') = \<lparr>effects = [], txn = None\<rparr>
   \<and> buyNftTransaction sampleSdk unloadedPage = \<lparr>effects = [], txn = None\<rparr>"
proof -
  have 1: "publicKey otherHousePage = Some (PublicKey ''Bob'')"
    "signTransaction otherHousePage = Some sampleSign"
    "listing otherHousePage = None \<or> isOwner otherHousePage \<or> NftShow.data otherHousePage = None"
    by (simp_all add: otherHousePage_def listing_def world_defs)
  have 2: "publicKey (samplePage ''Alice'' ''Alice'') = Some (PublicKey ''Alice'')"
    "signTransaction (samplePage ''Alice'' ''Alice'') = Some sampleSign"
    "listing (samplePage ''Alice'' ''Alice'') = None \<or> isOwner (samplePage ''Alice'' ''Alice'')
      \<or> NftShow.data (samplePage ''Alice'' ''Alice'') = None"
    by (simp_all add: samplePage_isOwner) (simp_all add: samplePage_def)
  have 3: "publicKey unloadedPage = Some (PublicKey ''Bob'')"
    "signTransaction unloadedPage = Some sampleSign"
    "listing unloadedPage = None \<or> isOwner unloadedPage \<or> NftShow.data unloadedPage = None"
    by (simp_all add: unloadedPage_def samplePage_def)
  from buy_guards_abort [OF 1, of sampleSdk] buy_guards_abort [OF 2, of sampleSdk]
    buy_guards_abort [OF 3, of sampleSdk]
  show ?thesis by simp
qed

text \<open>
  C5 (amended). With the wallet connected, a Cancel returns at once, with no call made and
  no transaction created, when the viewer's address is not the address of the NFT's owner
  in the loaded snapshot (in particular when no snapshot is loaded). The guard compares
  with the owner of the NFT; the seller recorded on the listing is not consulted.
\<close>

theorem cancel_requires_owner:
  assumes "publicKey p = Some pk" and "signTransaction p = Some sign"
    and "map_option (\<lambda>d. NftOwner.address (owner (nft d))) (NftShow.data p) \<noteq> Some (toBase58 pk)"
  shows "cancelListingTransaction sdk p = \<lparr>effects = [], txn = None\<rparr>"
  using assms by (auto simp: cancelListingTransaction_def isOwner_def split: option.splits)

theorem cancel_requires_owner_witness:
  "cancelListingTransaction sampleSdk (samplePage ''Bob'' ''Alice'') = \<lparr>effects = [], txn = None\<rparr>"
proof -
  have 1: "publicKey (samplePage ''Bob'' ''Alice'') = Some (PublicKey ''Bob'')"
    "signTransaction (samplePage ''Bob'' ''Alice'') = Some sampleSign"
    "map_option (\<lambda>d. NftOwner.address (owner (nft d))) (NftShow.data (samplePage ''Bob'' ''Alice''))
       \<noteq> Some (toBase58 (PublicKey ''Bob''))"
    by (simp_all add: samplePage_def sampleData_def)
  from cancel_requires_owner [OF 1] show ?thesis .
qed

text \<open>
  C5 as stated compares the viewer with the listing's seller. With a snapshot whose owner
  is Carol while its listing still names Alice as seller, Carol's Cancel is not stopped:
  it derives her trade state, assembles the two instructions and runs to confirmation.
\<close>

theorem cancel_by_non_seller_counterexample:
  "publicKey (samplePage ''Carol'' ''Carol'') = Some (PublicKey ''Carol'')
   \<and> listing (samplePage ''Carol'' ''Carol'') = Some sampleListing
   \<and> Listing.seller sampleListing \<noteq> toBase58 (PublicKey ''Carol'')
   \<and> map_option (map TransactionInstruction.data \<circ> instructions)
       (txn (cancelListingTransaction sampleSdk (samplePage ''Carol'' ''Carol''))) = Some [[5], [6]]
   \<and> filter isDerivation (effects (cancelListingTransaction sampleSdk (samplePage ''Carol'' ''Carol'')))
       = [FindTradeStateAddress (PublicKey ''Carol'') (PublicKey ''AH'') (PublicKey ''OwnerATA'')
            (PublicKey ''So11'') (PublicKey ''Mint'') 2500000000 1]
   \<and> notifications (effects (cancelListingTransaction sampleSdk (samplePage ''Carol'' ''Carol'')))
       = [Toast ''Sending the transaction to Solana.'',
          ToastSuccess ''The transaction was confirmed.'']"
  by (simp add: handler_defs notifications_def cancelDerivations_def cancelTxt_def
      addInstruction_def newTransaction_def instruction_defs auctionHouse_def tokenAccount_def
      treasuryMint_def tokenMint_def buyerPrice_def sample_defs)

text \<open>
  C6 (amended). With the wallet connected, a listing present and the snapshot loaded, a Buy
  by a viewer whose address is the address of the NFT's owner returns at once: no call
  is made and no transaction is created.
\<close>

theorem buy_by_owner_aborts:
  assumes "publicKey p = Some pk" and "signTransaction p = Some sign"
    and "listing p = Some l" and "NftShow.data p = Some d"
    and "NftOwner.address (owner (nft d)) = toBase58 pk"
  shows "buyNftTransaction sdk p = \<lparr>effects = [], txn = None\<rparr>"
  using assms by (simp add: buyNftTransaction_def isOwner_def)

theorem buy_by_owner_aborts_witness:
  "buyNftTransaction sampleSdk (samplePage ''Alice'' ''Alice'') = \<lparr>effects = [], txn = None\<rparr>"
proof -
  have 1: "publicKey (samplePage ''Alice'' ''Alice'') = Some (PublicKey ''Alice'')"
    "signTransaction (samplePage ''Alice'' ''Alice'') = Some sampleSign"
    "listing (samplePage ''Alice'' ''Alice'') = Some sampleListing"
    "NftShow.data (samplePage ''Alice'' ''Alice'') = Some (sampleData ''Alice'')"
    "NftOwner.address (owner (nft (sampleData ''Alice''))) = toBase58 (PublicKey ''Alice'')"
    by (simp_all add: samplePage_listing) (simp_all add: samplePage_def sampleData_def)
  from buy_by_owner_aborts [OF 1] show ?thesis .
qed

text \<open>
  C6 as stated compares the viewer with the listing's seller. With a snapshot whose owner
  is Carol while its listing still names Alice as seller, a Buy by Alice is not stopped:
  it makes the eight derivation calls, assembles the four instructions and runs to
  confirmation.
\<close>

theorem buy_by_seller_counterexample:
  "publicKey (samplePage ''Alice'' ''Carol'') = Some (PublicKey ''Alice'')
   \<and> listing (samplePage ''Alice'' ''Carol'') = Some sampleListing
   \<and> Listing.seller sampleListing = toBase58 (PublicKey ''Alice'')
   \<and> map_option (map TransactionInstruction.data \<circ> instructions)
       (txn (buyNftTransaction sampleSdk (samplePage ''Alice'' ''Carol''))) = Some [[1], [2], [3], [4]]
   \<and> length (filter isDerivation
        (effects (buyNftTransaction sampleSdk (samplePage ''Alice'' ''Carol'')))) = 8
   \<and> notifications (effects (buyNftTransaction sampleSdk (samplePage ''Alice'' ''Carol'')))
       = [Toast ''Sending the transaction to Solana.'',
          ToastSuccess ''The transaction was confirmed.'']"
  by (simp add: handler_defs notifications_def buyDerivations_def buyTxt_def
      addInstruction_def newTransaction_def instruction_defs sample_defs)

text \<open>
  C7. Without a connected public key or without a signing function, Buy and Cancel both
  call the login hook and do nothing else: no address is derived, no transaction is
  created, nothing is signed or submitted, and no notification is shown.
\<close>

theorem wallet_unavailable_login:
  assumes "publicKey p = None \<or> signTransaction p = None"
  shows "buyNftTransaction sdk p = \<lparr>effects = [Login], txn = None\<rparr>
       \<and> cancelListingTransaction sdk p = \<lparr>effects = [Login], txn = None\<rparr>"
  using assms
  by (auto simp: buyNftTransaction_def cancelListingTransaction_def split: option.splits)

theorem wallet_unavailable_login_witness:
  "buyNftTransaction sampleSdk disconnectedPage = \<lparr>effects = [Login], txn = None\<rparr>
   \<and> cancelListingTransaction sampleSdk disconnectedPage = \<lparr>effects = [Login], txn = None\<rparr>
   \<and> buyNftTransaction sampleSdk readOnlyWalletPage = \<lparr>effects = [Login], txn = None\<rparr>
   \<and> cancelListingTransaction sampleSdk readOnlyWalletPage = \<lparr>effects = [Login], txn = None\<rparr>"
proof -
  have 1: "publicKey disconnectedPage = None \<or> signTransaction disconnectedPage = None"
    by (simp add: disconnectedPage_def)
  have 2: "publicKey readOnlyWalletPage = None \<or> signTransaction readOnlyWalletPage = None"
    by (simp add: readOnlyWalletPage_def)
  from wallet_unavailable_login [OF 1, of sampleSdk] wallet_unavailable_login [OF 2, of sampleSdk]
  show ?thesis by simp
qed

section \<open>How failures are shown\<close>

text \<open>
  C8 (amended). In every run that assembled a transaction and obtained a blockhash, a
  failure of signing is shown as one error notification carrying the error's message; a
  failure of serialization, of submission or of confirmation is shown as the "Sending"
  notification followed by one error notification carrying the error's message. A
  confirmation failure is therefore shown exactly as a submission failure with the same
  message, and both differ from a signing failure by the preceding "Sending"
  notification.
\<close>

theorem failure_notifications:
  assumes "signTransaction p = Some sign" and "txn (attempt i sdk p) = Some t"
    and "getRecentBlockhash (connection p) = Inr b"
  shows "(\<forall>e. sign t = Inl e \<longrightarrow>
            notifications (effects (attempt i sdk p)) = [ToastError (message e)])
       \<and> (\<forall>s e. sign t = Inr s \<and> serialize sdk s = Inl e \<longrightarrow>
            notifications (effects (attempt i sdk p)) =
              [Toast ''Sending the transaction to Solana.'', ToastError (message e)])
       \<and> (\<forall>s raw e. sign t = Inr s \<and> serialize sdk s = Inr raw \<and>
              sendRawTransaction (connection p) raw = Inl e \<longrightarrow>
            notifications (effects (attempt i sdk p)) =
              [Toast ''Sending the transaction to Solana.'', ToastError (message e)])
       \<and> (\<forall>s raw sg e. sign t = Inr s \<and> serialize sdk s = Inr raw \<and>
              sendRawTransaction (connection p) raw = Inr sg \<and>
              confirmTransaction (connection p) sg ''confirmed'' = Inl e \<longrightarrow>
            notifications (effects (attempt i sdk p)) =
              [Toast ''Sending the transaction to Solana.'', ToastError (message e)])"
  unfolding notifications_attempt [OF assms]
  by (simp add: notifications_def signAndSubmit_def)

theorem failure_notifications_witness:
  "notifications (effects (attempt Buy sampleSdk signFailsPage)) =
     [ToastError ''User rejected the request.'']
   \<and> notifications (effects (attempt Buy sampleSdk sendFailsPage)) =
     [Toast ''Sending the transaction to Solana.'', ToastError ''Network request failed'']
   \<and> notifications (effects (attempt Buy sampleSdk confirmFailsPage)) =
     [Toast ''Sending the transaction to Solana.'', ToastError ''Network request failed'']"
proof -
  have "\<exists>t. txn (attempt Buy sampleSdk signFailsPage) = Some t"
    by (simp add: handler_defs world_defs page_defs)
  then obtain t1 where t1: "txn (attempt Buy sampleSdk signFailsPage) = Some t1" by blast
  obtain t2 where t2: "txn (attempt Buy sampleSdk sendFailsPage) = Some t2"
    using sendFails_txn by blast
  obtain t3 where t3: "txn (attempt Buy sampleSdk confirmFailsPage) = Some t3"
    using confirmFails_txn by blast
  have s: "signTransaction signFailsPage = Some rejectingSign"
    "signTransaction sendFailsPage = Some sampleSign"
    "signTransaction confirmFailsPage = Some sampleSign"
    and b: "getRecentBlockhash (connection signFailsPage) = Inr ''Blockhash''"
    "getRecentBlockhash (connection sendFailsPage) = Inr ''Blockhash''"
    "getRecentBlockhash (connection confirmFailsPage) = Inr ''Blockhash''"
    by (simp_all add: page_defs samplePage_def sampleConnection_def)
  have 1: "rejectingSign t1 = Inl (Error ''User rejected the request.'')"
    by (simp add: rejectingSign_def)
  have 2: "sampleSign t2 = Inr (t2\<lparr>signatures := [''WalletSignature'']\<rparr>) \<and>
      serialize sampleSdk (t2\<lparr>signatures := [''WalletSignature'']\<rparr>) = Inr [7] \<and>
      sendRawTransaction (connection sendFailsPage) [7] = Inl (Error ''Network request failed'')"
    by (simp add: sampleSign_def sampleSdk_def page_defs samplePage_def)
  have 3: "sampleSign t3 = Inr (t3\<lparr>signatures := [''WalletSignature'']\<rparr>) \<and>
      serialize sampleSdk (t3\<lparr>signatures := [''WalletSignature'']\<rparr>) = Inr [7] \<and>
      sendRawTransaction (connection confirmFailsPage) [7] = Inr ''TxId'' \<and>
      confirmTransaction (connection confirmFailsPage) ''TxId'' ''confirmed''
        = Inl (Error ''Network request failed'')"
    by (simp add: sampleSign_def sampleSdk_def page_defs samplePage_def sampleConnection_def)
  from failure_notifications [OF s(1) t1 b(1)] 1
  have "notifications (effects (attempt Buy sampleSdk signFailsPage)) =
     [ToastError ''User rejected the request.'']" by auto
  moreover from failure_notifications [OF s(2) t2 b(2)] 2
  have "notifications (effects (attempt Buy sampleSdk sendFailsPage)) =
     [Toast ''Sending the transaction to Solana.'', ToastError ''Network request failed'']"
    by (metis Error.sel)
  moreover from failure_notifications [OF s(3) t3 b(3)] 3
  have "notifications (effects (attempt Buy sampleSdk confirmFailsPage)) =
     [Toast ''Sending the transaction to Solana.'', ToastError ''Network request failed'']"
    by (metis Error.sel)
  ultimately show ?thesis by simp
qed

text \<open>
  C8 as stated makes a confirmation failure distinguishable from a submission failure.
  Two Buys, one failing in \<open>sendRawTransaction\<close> and one failing in
  \<open>confirmTransaction\<close>, both with the message "Network request failed", show the
  user the same notifications.
\<close>

theorem confirm_like_submit_counterexample:
  "SendRawTransaction [7] \<in> set (effects (attempt Buy sampleSdk sendFailsPage))
   \<and> sendRawTransaction (connection sendFailsPage) [7] = Inl (Error ''Network request failed'')
   \<and> ConfirmTransaction ''TxId'' ''confirmed'' \<in> set (effects (attempt Buy sampleSdk confirmFailsPage))
   \<and> confirmTransaction (connection confirmFailsPage) ''TxId'' ''confirmed''
       = Inl (Error ''Network request failed'')
   \<and> notifications (effects (attempt Buy sampleSdk confirmFailsPage)) =
       notifications (effects (attempt Buy sampleSdk sendFailsPage))"
  by (simp add: handler_defs notifications_def buyDerivations_def sample_defs page_defs)

section \<open>The trade state of a Cancel\<close>




end
